theory Spec2Isabelle
  imports Main
begin

section \<open>Data model of \<^verbatim>\<open>src/App.jsx\<close>\<close>

text \<open>
  The client holds JSON values fetched from the backend. A field that JavaScript may find
  \<^verbatim>\<open>null\<close> or \<^verbatim>\<open>undefined\<close> is an \<open>option\<close>. Several records share field names
  (\<open>status\<close>, \<open>medication_id\<close>, \<open>scheduled_time\<close>), as the JSON objects do; they are
  written qualified (\<open>dose_item.status\<close>, \<open>senior_state.status\<close>).
\<close>

record dose_item =
  medication_id :: string
  scheduled_time :: string
  status :: string

record daily_status =
  taken :: int
  total_doses :: int
  items :: "dose_item list option"

record history_entry =
  id :: string
  medication_id :: string
  scheduled_time :: "string option"
  status :: string

record inventory_alert =
  medication_id :: string
  name :: string
  inventory_count :: int
  low_threshold :: int

record dashboard =
  history :: "history_entry list"
  missed :: "history_entry list"
  inventory_alerts :: "inventory_alert list"

text \<open>
  What the module takes from its platform: the constant \<^verbatim>\<open>API_BASE\<close> (line 3), the
  builtin \<^verbatim>\<open>encodeURIComponent\<close>, and the time value of \<^verbatim>\<open>new Date(s)\<close> in
  milliseconds, \<open>None\<close> for an Invalid Date (whose number value is NaN).
  \<^verbatim>\<open>encodeURIComponent\<close> throws a \<^verbatim>\<open>URIError\<close> on a string that holds a lone
  surrogate: \<open>Inl m\<close> is that error with its message \<open>m\<close>, \<open>Inr u\<close> the encoded
  string.
\<close>

record env =
  API_BASE :: string
  encodeURIComponent :: "string \<Rightarrow> string + string"
  Date_value :: "string \<Rightarrow> int option"

section \<open>The next pending dose (lines 30-36)\<close>

text \<open>
  The comparator of line 35, \<^verbatim>\<open>(a,b) => new Date(a.scheduled_time) - new Date(b.scheduled_time)\<close>.
  The difference of two time values keeps its sign in double arithmetic; with an Invalid
  Date on either side it is NaN, here \<open>None\<close>.
\<close>

definition compareFn :: "env \<Rightarrow> dose_item \<Rightarrow> dose_item \<Rightarrow> int option" where
  "compareFn E a b =
     (case (Date_value E (dose_item.scheduled_time a), Date_value E (dose_item.scheduled_time b)) of
        (Some ta, Some tb) \<Rightarrow> Some (ta - tb)
      | _ \<Rightarrow> None)"

text \<open>
  \<^verbatim>\<open>Array.prototype.sort\<close> with a comparator: a NaN result counts as \<open>+0\<close>, and the sort
  is stable. The model inserts each element, from the right, before the first element it
  does not exceed. ECMAScript fixes the order only for a consistent comparator (one that
  never returns NaN): there the result is the stable sort, which the model computes
  (\<open>js_sort_stable_sort\<close> below). When a comparison gives NaN the order is left to the
  engine, and an engine may order the array otherwise than the model does; so every
  theorem about the order asks for valid dates.
\<close>

definition cmp_le :: "('a \<Rightarrow> 'a \<Rightarrow> int option) \<Rightarrow> 'a \<Rightarrow> 'a \<Rightarrow> bool" where
  "cmp_le c a b = (case c a b of None \<Rightarrow> True | Some v \<Rightarrow> v \<le> 0)"

fun js_insert :: "('a \<Rightarrow> 'a \<Rightarrow> int option) \<Rightarrow> 'a \<Rightarrow> 'a list \<Rightarrow> 'a list" where
  "js_insert c x [] = [x]"
| "js_insert c x (y # ys) = (if cmp_le c x y then x # y # ys else y # js_insert c x ys)"

fun js_sort :: "('a \<Rightarrow> 'a \<Rightarrow> int option) \<Rightarrow> 'a list \<Rightarrow> 'a list" where
  "js_sort c [] = []"
| "js_sort c (x # xs) = js_insert c x (js_sort c xs)"

text \<open>\<^verbatim>\<open>xs[0]\<close>: \<^verbatim>\<open>undefined\<close> on an empty array.\<close>

definition index0 :: "'a list \<Rightarrow> 'a option" where
  "index0 xs = (case xs of [] \<Rightarrow> None | x # _ \<Rightarrow> Some x)"

text \<open>Line 32: \<^verbatim>\<open>status.items.filter(i => i.status !== 'taken')\<close>.\<close>

definition pending_of :: "dose_item list \<Rightarrow> dose_item list" where
  "pending_of its = filter (\<lambda>i. dose_item.status i \<noteq> ''taken'') its"

text \<open>
  \<^verbatim>\<open>
  const nextPending = useMemo(() => {
    if (!status?.items) return null
    const pending = status.items.filter(i => i.status !== 'taken')
    if (pending.length === 0) return null
    return pending.sort((a,b) => new Date(a.scheduled_time) - new Date(b.scheduled_time))[0]
  }, [status])
  \<close>
\<close>

definition nextPending :: "env \<Rightarrow> daily_status option \<Rightarrow> dose_item option" where
  "nextPending E st =
     (case st of
        None \<Rightarrow> None
      | Some s \<Rightarrow>
          (case items s of
             None \<Rightarrow> None
           | Some its \<Rightarrow>
               (let pending = pending_of its in
                if length pending = 0 then None
                else index0 (js_sort (compareFn E) pending))))"

text \<open>The items of a list whose scheduled time parses to a valid date.\<close>

definition valid_dates :: "env \<Rightarrow> dose_item list \<Rightarrow> bool" where
  "valid_dates E xs = list_all (\<lambda>i. Date_value E (dose_item.scheduled_time i) \<noteq> None) xs"

text \<open>The time value of an item whose scheduled time is a valid date.\<close>

definition time_of :: "env \<Rightarrow> dose_item \<Rightarrow> int" where
  "time_of E i = the (Date_value E (dose_item.scheduled_time i))"

text \<open>
  Strings are lists of bytes here; the string that holds only the lone surrogate U+D800 is
  written by the three bytes of its generalised UTF-8 form.
\<close>

definition lone_surrogate :: string where
  "lone_surrogate = [CHR 0xED, CHR 0xA0, CHR 0x80]"

text \<open>
  The scenario of the specification: ISO strings of 1 January 2024 and their time values.
  The encoding is the identity, as it is on identifiers of unreserved characters such as
  \<^verbatim>\<open>demo-patient\<close>, and throws on the lone surrogate.
\<close>

definition demo_env :: env where
  "demo_env = \<lparr>API_BASE = ''http://localhost:8000'',
               encodeURIComponent =
                 (\<lambda>s. if s = lone_surrogate then Inl ''URI malformed'' else Inr s),
               Date_value = (\<lambda>s.
                 if s = ''2024-01-01T08:00:00Z'' then Some 1704096000000
                 else if s = ''2024-01-01T12:00:00Z'' then Some 1704110400000
                 else if s = ''2024-01-01T20:00:00Z'' then Some 1704139200000
                 else None)\<rparr>"

definition item_A :: dose_item where
  "item_A = \<lparr>dose_item.medication_id = ''A'', dose_item.scheduled_time = ''2024-01-01T08:00:00Z'', dose_item.status = ''taken''\<rparr>"

definition item_B :: dose_item where
  "item_B = \<lparr>dose_item.medication_id = ''B'', dose_item.scheduled_time = ''2024-01-01T20:00:00Z'', dose_item.status = ''pending''\<rparr>"

definition item_C :: dose_item where
  "item_C = \<lparr>dose_item.medication_id = ''C'', dose_item.scheduled_time = ''2024-01-01T12:00:00Z'', dose_item.status = ''pending''\<rparr>"

definition demo_status :: daily_status where
  "demo_status = \<lparr>taken = 1, total_doses = 3, items = Some [item_A, item_B, item_C]\<rparr>"

section \<open>Network calls and React state\<close>

text \<open>
  A call of \<^verbatim>\<open>fetch\<close>: a GET of a URL, or the POST of line 43 with its headers and the
  members of the object given to \<^verbatim>\<open>JSON.stringify\<close>, in order.
\<close>

datatype http_request =
    GET string
  | POST string "(string \<times> string) list" "(string \<times> string) list"

text \<open>
  What the platform answers. The promise of \<^verbatim>\<open>fetch\<close> rejects with an error (its
  \<^verbatim>\<open>message\<close> kept), or resolves to a response with its \<^verbatim>\<open>ok\<close> flag (true for a 2xx
  status) and what \<^verbatim>\<open>res.json()\<close> would give: the decoded value, or a rejection with
  the parser's message.
\<close>

datatype 'a json_result = Json 'a | SyntaxError string

datatype 'a fetch_result = Rejected string | Response bool "'a json_result"

text \<open>
  What an action does, in order: calls of the state setters and of \<^verbatim>\<open>fetch\<close>.
  \<open>SetData\<close> is \<^verbatim>\<open>setStatus\<close> in SeniorView and \<^verbatim>\<open>setData\<close> in CaregiverView.
\<close>

datatype 'd effect = SetLoading bool | SetError string | SetData 'd | Fetch http_request

text \<open>
  A run of a block: the effects performed, and the message of the error it threw, if any.
\<close>

type_synonym 'd run = "'d effect list \<times> string option"

text \<open>
  The handlers shared by the three actions:
  \<^verbatim>\<open>catch (e) { setError(e.message) } finally { setLoading(false) }\<close>.
  Nothing is thrown again.
\<close>

definition catch_finally :: "'d run \<Rightarrow> 'd run" where
  "catch_finally r =
     (case r of (effs, thrown) \<Rightarrow>
        (effs @ (case thrown of Some m \<Rightarrow> [SetError m] | None \<Rightarrow> []) @ [SetLoading False], None))"

definition requests :: "'d effect list \<Rightarrow> http_request list" where
  "requests effs = concat (map (\<lambda>e. case e of Fetch q \<Rightarrow> [q] | _ \<Rightarrow> []) effs)"

definition sets_data :: "'d effect \<Rightarrow> bool" where
  "sets_data e = (case e of SetData _ \<Rightarrow> True | _ \<Rightarrow> False)"

record view_state =
  loading :: bool
  error :: string

section \<open>SeniorView (lines 5-101)\<close>

record senior_state = view_state +
  userId :: string
  status :: "daily_status option"

definition senior_apply :: "senior_state \<Rightarrow> daily_status option effect \<Rightarrow> senior_state" where
  "senior_apply s e =
     (case e of
        SetLoading b \<Rightarrow> s\<lparr>loading := b\<rparr>
      | SetError m \<Rightarrow> s\<lparr>error := m\<rparr>
      | SetData d \<Rightarrow> s\<lparr>senior_state.status := d\<rparr>
      | Fetch _ \<Rightarrow> s)"

text \<open>
  The template literal of line 17: the URL, or the \<^verbatim>\<open>URIError\<close> that
  \<^verbatim>\<open>encodeURIComponent(userId)\<close> throws while the literal is evaluated.
\<close>

definition today_url :: "env \<Rightarrow> string \<Rightarrow> string + string" where
  "today_url E uid =
     (case encodeURIComponent E uid of
        Inl m \<Rightarrow> Inl m
      | Inr enc \<Rightarrow> Inr (API_BASE E @ ''/api/senior/today?user_id='' @ enc))"

definition confirm_url :: "env \<Rightarrow> string" where
  "confirm_url E = API_BASE E @ ''/api/senior/confirm''"

text \<open>
  The \<^verbatim>\<open>try\<close> block of \<^verbatim>\<open>fetchStatus\<close> (lines 15-20):
  \<^verbatim>\<open>
  setLoading(true)
  setError('')
  const res = await fetch(`${API_BASE}/api/senior/today?user_id=${encodeURIComponent(userId)}`)
  if (!res.ok) throw new Error('Failed to fetch status')
  const data = await res.json()
  setStatus(data)
  \<close>
  The argument of \<^verbatim>\<open>fetch\<close> is evaluated before the call: when it throws, no request
  is made and the answer \<open>r\<close> is not read.
\<close>

definition fetchStatus_try ::
  "env \<Rightarrow> string \<Rightarrow> daily_status option fetch_result \<Rightarrow> daily_status option run" where
  "fetchStatus_try E uid r =
     (case today_url E uid of
        Inl m \<Rightarrow> ([SetLoading True, SetError []], Some m)
      | Inr url \<Rightarrow>
          (let pre = [SetLoading True, SetError [], Fetch (GET url)] in
           case r of
             Rejected m \<Rightarrow> (pre, Some m)
           | Response ok body \<Rightarrow>
               if \<not> ok then (pre, Some ''Failed to fetch status'')
               else (case body of
                       SyntaxError m \<Rightarrow> (pre, Some m)
                     | Json data \<Rightarrow> (pre @ [SetData data], None))))"

definition fetchStatus ::
  "env \<Rightarrow> string \<Rightarrow> daily_status option fetch_result \<Rightarrow> daily_status option run" where
  "fetchStatus E uid r = catch_finally (fetchStatus_try E uid r)"

text \<open>
  The \<^verbatim>\<open>try\<close> block of \<^verbatim>\<open>handleConfirm\<close> (lines 41-53), for the pending dose \<open>np\<close>,
  the answer \<open>rp\<close> to the POST and the answer \<open>rg\<close> to the reload:
  \<^verbatim>\<open>
  setLoading(true)
  setError('')
  const res = await fetch(`${API_BASE}/api/senior/confirm`, {
    method: 'POST',
    headers: { 'Content-Type': 'application/json' },
    body: JSON.stringify({
      user_id: userId,
      medication_id: nextPending.medication_id,
      scheduled_time_iso: nextPending.scheduled_time
    })
  })
  if (!res.ok) throw new Error('Failed to confirm dose')
  await fetchStatus()
  \<close>
\<close>

definition confirm_request :: "env \<Rightarrow> string \<Rightarrow> dose_item \<Rightarrow> http_request" where
  "confirm_request E uid np =
     POST (confirm_url E)
       [(''Content-Type'', ''application/json'')]
       [(''user_id'', uid),
        (''medication_id'', dose_item.medication_id np),
        (''scheduled_time_iso'', dose_item.scheduled_time np)]"

definition handleConfirm_try ::
  "env \<Rightarrow> string \<Rightarrow> dose_item \<Rightarrow> 'b fetch_result \<Rightarrow> daily_status option fetch_result
     \<Rightarrow> daily_status option run" where
  "handleConfirm_try E uid np rp rg =
     (let pre = [SetLoading True, SetError [], Fetch (confirm_request E uid np)] in
      case rp of
        Rejected m \<Rightarrow> (pre, Some m)
      | Response ok body \<Rightarrow>
          if \<not> ok then (pre, Some ''Failed to confirm dose'')
          else (case fetchStatus E uid rg of (effs, thrown) \<Rightarrow> (pre @ effs, thrown)))"

text \<open>Line 39: \<^verbatim>\<open>if (!nextPending) return\<close>, then the \<^verbatim>\<open>try\<close> with its handlers.\<close>

definition handleConfirm ::
  "env \<Rightarrow> string \<Rightarrow> dose_item option \<Rightarrow> 'b fetch_result \<Rightarrow> daily_status option fetch_result
     \<Rightarrow> daily_status option run" where
  "handleConfirm E uid np_opt rp rg =
     (case np_opt of
        None \<Rightarrow> ([], None)
      | Some np \<Rightarrow> catch_finally (handleConfirm_try E uid np rp rg))"

text \<open>
  The two actions on the component's state: the closure reads \<^verbatim>\<open>userId\<close> and
  \<^verbatim>\<open>nextPending\<close> of the render it was made in, and the setters act in order.
\<close>

definition senior_fetchStatus ::
  "env \<Rightarrow> senior_state \<Rightarrow> daily_status option fetch_result \<Rightarrow> senior_state" where
  "senior_fetchStatus E s r = foldl senior_apply s (fst (fetchStatus E (userId s) r))"

definition confirm_run ::
  "env \<Rightarrow> senior_state \<Rightarrow> 'b fetch_result \<Rightarrow> daily_status option fetch_result
     \<Rightarrow> daily_status option run" where
  "confirm_run E s rp rg =
     handleConfirm E (userId s) (nextPending E (senior_state.status s)) rp rg"

definition senior_handleConfirm ::
  "env \<Rightarrow> senior_state \<Rightarrow> 'b fetch_result \<Rightarrow> daily_status option fetch_result \<Rightarrow> senior_state" where
  "senior_handleConfirm E s rp rg = foldl senior_apply s (fst (confirm_run E s rp rg))"

text \<open>
  The rendering of lines 68-92: the error banner when \<^verbatim>\<open>error\<close> is truthy; then
  \<^verbatim>\<open>Loading...\<close>, or the counts, the Confirm button with its \<^verbatim>\<open>disabled\<close> flag and
  the caption (the time shown is the locale's formatting of the scheduled time).
\<close>

datatype caption = NextDoseAt string | AllConfirmed

datatype senior_card = LoadingText | Card int int bool caption

definition confirm_disabled :: "env \<Rightarrow> senior_state \<Rightarrow> bool" where
  "confirm_disabled E s = (nextPending E (senior_state.status s) = None)"

definition senior_banner :: "senior_state \<Rightarrow> string option" where
  "senior_banner s = (if error s = [] then None else Some (error s))"

definition senior_card :: "env \<Rightarrow> senior_state \<Rightarrow> senior_card" where
  "senior_card E s =
     (if loading s then LoadingText
      else Card
        (case senior_state.status s of None \<Rightarrow> 0 | Some d \<Rightarrow> taken d)
        (case senior_state.status s of None \<Rightarrow> 0 | Some d \<Rightarrow> total_doses d)
        (confirm_disabled E s)
        (case nextPending E (senior_state.status s) of
           Some np \<Rightarrow> NextDoseAt (dose_item.scheduled_time np)
         | None \<Rightarrow> AllConfirmed))"

section \<open>CaregiverView (lines 103-194)\<close>

record caregiver_state = view_state +
  patientId :: string
  data :: "dashboard option"

definition caregiver_apply :: "caregiver_state \<Rightarrow> dashboard option effect \<Rightarrow> caregiver_state" where
  "caregiver_apply s e =
     (case e of
        SetLoading b \<Rightarrow> s\<lparr>loading := b\<rparr>
      | SetError m \<Rightarrow> s\<lparr>error := m\<rparr>
      | SetData d \<Rightarrow> s\<lparr>data := d\<rparr>
      | Fetch _ \<Rightarrow> s)"

definition dashboard_url :: "env \<Rightarrow> string \<Rightarrow> string + string" where
  "dashboard_url E pid =
     (case encodeURIComponent E pid of
        Inl m \<Rightarrow> Inl m
      | Inr enc \<Rightarrow> Inr (API_BASE E @ ''/api/caregiver/dashboard?patient_id='' @ enc))"

text \<open>
  The \<^verbatim>\<open>try\<close> block of \<^verbatim>\<open>fetchData\<close> (lines 111-116):
  \<^verbatim>\<open>
  setLoading(true)
  setError('')
  const res = await fetch(`${API_BASE}/api/caregiver/dashboard?patient_id=${encodeURIComponent(patientId)}`)
  if (!res.ok) throw new Error('Failed to load dashboard')
  const json = await res.json()
  setData(json)
  \<close>
  As on line 17, a \<^verbatim>\<open>URIError\<close> of \<^verbatim>\<open>encodeURIComponent(patientId)\<close> is thrown
  before any request is made.
\<close>

definition fetchData_try ::
  "env \<Rightarrow> string \<Rightarrow> dashboard option fetch_result \<Rightarrow> dashboard option run" where
  "fetchData_try E pid r =
     (case dashboard_url E pid of
        Inl m \<Rightarrow> ([SetLoading True, SetError []], Some m)
      | Inr url \<Rightarrow>
          (let pre = [SetLoading True, SetError [], Fetch (GET url)] in
           case r of
             Rejected m \<Rightarrow> (pre, Some m)
           | Response ok body \<Rightarrow>
               if \<not> ok then (pre, Some ''Failed to load dashboard'')
               else (case body of
                       SyntaxError m \<Rightarrow> (pre, Some m)
                     | Json json \<Rightarrow> (pre @ [SetData json], None))))"

definition fetchData ::
  "env \<Rightarrow> string \<Rightarrow> dashboard option fetch_result \<Rightarrow> dashboard option run" where
  "fetchData E pid r = catch_finally (fetchData_try E pid r)"

definition caregiver_fetchData ::
  "env \<Rightarrow> caregiver_state \<Rightarrow> dashboard option fetch_result \<Rightarrow> caregiver_state" where
  "caregiver_fetchData E s r = foldl caregiver_apply s (fst (fetchData E (patientId s) r))"

text \<open>
  The rendering of lines 142-191. A panel is the list of the children of its list
  container: a paragraph of text, or one row per entry (a history row shows the medication,
  the scheduled time or \<^verbatim>\<open>'-'\<close>, and the status; an alert row the name, the count and
  the threshold). The panels are rendered when \<^verbatim>\<open>!loading && data\<close>.
  \<open>shown_time\<close> is the test of lines 151 and 168,
  \<^verbatim>\<open>h.scheduled_time ? new Date(h.scheduled_time).toLocaleString() : '-'\<close>: \<open>None\<close>
  stands for the dash, shown for a null, undefined or empty scheduled time, and
  \<open>Some t\<close> for the locale's formatting of \<open>t\<close>.
\<close>

definition shown_time :: "string option \<Rightarrow> string option" where
  "shown_time t = (case t of None \<Rightarrow> None | Some x \<Rightarrow> if x = [] then None else Some x)"

datatype node =
    Paragraph string
  | HistoryRow string string "string option" string
  | MissedRow string string "string option"
  | AlertRow string string int int

definition history_panel :: "dashboard \<Rightarrow> node list" where
  "history_panel d =
     map (\<lambda>h. HistoryRow (history_entry.id h) (history_entry.medication_id h)
                 (shown_time (history_entry.scheduled_time h)) (history_entry.status h)) (history d)"

definition missed_panel :: "dashboard \<Rightarrow> node list" where
  "missed_panel d =
     (if length (missed d) = 0 then [Paragraph ''No missed doses in the last week.''] else [])
     @ map (\<lambda>m. MissedRow (history_entry.id m) (history_entry.medication_id m)
                   (shown_time (history_entry.scheduled_time m))) (missed d)"

definition alerts_panel :: "dashboard \<Rightarrow> node list" where
  "alerts_panel d =
     (if length (inventory_alerts d) = 0 then [Paragraph ''All inventories look good.''] else [])
     @ map (\<lambda>a. AlertRow (inventory_alert.medication_id a) (name a)
                   (inventory_count a) (low_threshold a)) (inventory_alerts d)"

definition caregiver_panels :: "caregiver_state \<Rightarrow> (node list \<times> node list \<times> node list) option" where
  "caregiver_panels s =
     (if loading s then None
      else (case data s of
              None \<Rightarrow> None
            | Some d \<Rightarrow> Some (history_panel d, missed_panel d, alerts_panel d)))"

section \<open>The derivation on the object store\<close>

text \<open>
  \<^verbatim>\<open>filter\<close> returns a new array and \<^verbatim>\<open>sort\<close> reorders the array it is called on, in
  place. To see which array line 35 reorders, the derivation is written once more over a
  store: item objects and arrays of references live at addresses, \<open>fresh\<close> is the next
  unused address, and \<open>items_ref\<close> is the value of \<^verbatim>\<open>status?.items\<close> (\<open>None\<close> when
  the status or the field is null or undefined, else the address of the array).
\<close>

record store =
  objs :: "nat \<Rightarrow> dose_item option"
  arrs :: "nat \<Rightarrow> nat list option"
  fresh :: nat

definition status_of_ref :: "store \<Rightarrow> nat \<Rightarrow> string option" where
  "status_of_ref h r = map_option dose_item.status (objs h r)"

definition compare_refs :: "env \<Rightarrow> store \<Rightarrow> nat \<Rightarrow> nat \<Rightarrow> int option" where
  "compare_refs E h a b =
     (case (objs h a, objs h b) of
        (Some x, Some y) \<Rightarrow> compareFn E x y
      | _ \<Rightarrow> None)"

definition nextPending_store :: "env \<Rightarrow> store \<Rightarrow> nat option \<Rightarrow> store \<times> nat option" where
  "nextPending_store E h items_ref =
     (case items_ref of
        None \<Rightarrow> (h, None)
      | Some a \<Rightarrow>
          (case arrs h a of
             None \<Rightarrow> (h, None)
           | Some refs \<Rightarrow>
               (let pending = filter (\<lambda>r. status_of_ref h r \<noteq> Some ''taken'') refs;
                    p = fresh h;
                    h1 = h\<lparr>arrs := (arrs h)(p \<mapsto> pending), fresh := Suc p\<rparr>
                in if length pending = 0 then (h1, None)
                   else (let sorted = js_sort (compare_refs E h1) pending;
                             h2 = h1\<lparr>arrs := (arrs h1)(p \<mapsto> sorted)\<rparr>
                         in (h2, index0 sorted)))))"

text \<open>
  \<open>fresh_unused\<close>: the address the allocator hands out next holds no array yet.
  \<open>refs_valid\<close>: every reference of an array points to an object. \<open>deref\<close> reads the
  items behind an array.
\<close>

definition fresh_unused :: "store \<Rightarrow> bool" where
  "fresh_unused h = (arrs h (fresh h) = None)"

definition refs_valid :: "store \<Rightarrow> nat list \<Rightarrow> bool" where
  "refs_valid h refs = list_all (\<lambda>r. objs h r \<noteq> None) refs"

definition deref :: "store \<Rightarrow> nat list \<Rightarrow> dose_item list" where
  "deref h refs = concat (map (\<lambda>r. case objs h r of Some x \<Rightarrow> [x] | None \<Rightarrow> []) refs)"

section \<open>Concrete values\<close>

text \<open>The states of lines 6-9 and 104-107, as \<^verbatim>\<open>useState\<close> initialises them.\<close>

definition senior_init :: senior_state where
  "senior_init = \<lparr>loading = False, error = [], userId = ''demo-patient'',
                  senior_state.status = None\<rparr>"

definition caregiver_init :: caregiver_state where
  "caregiver_init = \<lparr>loading = False, error = [], patientId = ''demo-patient'', data = None\<rparr>"

definition demo_senior :: senior_state where
  "demo_senior = senior_init\<lparr>senior_state.status := Some demo_status\<rparr>"

definition all_taken_status :: daily_status where
  "all_taken_status = \<lparr>taken = 1, total_doses = 1, items = Some [item_A]\<rparr>"

definition no_items_status :: daily_status where
  "no_items_status = \<lparr>taken = 0, total_doses = 0, items = None\<rparr>"

definition demo_store :: store where
  "demo_store = \<lparr>objs = [0 \<mapsto> item_A, 1 \<mapsto> item_B, 2 \<mapsto> item_C],
                 arrs = [3 \<mapsto> [0, 1, 2]],
                 fresh = 4\<rparr>"

definition empty_dashboard :: dashboard where
  "empty_dashboard = \<lparr>history = [], missed = [], inventory_alerts = []\<rparr>"

section \<open>Properties of the sort\<close>

lemma js_insert_set: "set (js_insert c x xs) = insert x (set xs)"
  by (induction xs) auto

lemma js_sort_set: "set (js_sort c xs) = set xs"
  by (induction xs) (auto simp: js_insert_set)

lemma cmp_le_compareFn:
  "Date_value E (dose_item.scheduled_time a) = Some ta \<Longrightarrow>
   Date_value E (dose_item.scheduled_time b) = Some tb \<Longrightarrow>
   cmp_le (compareFn E) a b \<longleftrightarrow> ta \<le> tb"
  by (simp add: cmp_le_def compareFn_def)

text \<open>
  With valid dates, the first element of the sorted array is an element of the array whose
  time value is below or equal to every other.
\<close>

lemma js_sort_head_min:
  assumes "valid_dates E xs" and "xs \<noteq> []"
  shows "\<exists>x t. index0 (js_sort (compareFn E) xs) = Some x \<and> x \<in> set xs \<and>
           Date_value E (dose_item.scheduled_time x) = Some t \<and>
           (\<forall>y\<in>set xs. \<forall>u. Date_value E (dose_item.scheduled_time y) = Some u \<longrightarrow> t \<le> u)"
  using assms
proof (induction xs)
  case Nil
  then show ?case by simp
next
  case (Cons a xs)
  from Cons.prems(1) obtain ta where ta: "Date_value E (dose_item.scheduled_time a) = Some ta"
    and vxs: "valid_dates E xs"
    by (auto simp: valid_dates_def)
  show ?case
  proof (cases "xs = []")
    case True
    then show ?thesis using ta by (simp add: index0_def)
  next
    case False
    from Cons.IH [OF vxs False] obtain h th where
      h: "index0 (js_sort (compareFn E) xs) = Some h" "h \<in> set xs"
         "Date_value E (dose_item.scheduled_time h) = Some th"
         "\<forall>y\<in>set xs. \<forall>u. Date_value E (dose_item.scheduled_time y) = Some u \<longrightarrow> th \<le> u"
      by blast
    from h(1) obtain rest where srt: "js_sort (compareFn E) xs = h # rest"
      by (auto simp: index0_def split: list.splits)
    show ?thesis
    proof (cases "ta \<le> th")
      case True
      then have "index0 (js_sort (compareFn E) (a # xs)) = Some a"
        using srt cmp_le_compareFn [OF ta h(3)] by (simp add: index0_def)
      moreover have "\<forall>y\<in>set (a # xs). \<forall>u. Date_value E (dose_item.scheduled_time y) = Some u \<longrightarrow> ta \<le> u"
        using True h(4) ta by fastforce
      ultimately show ?thesis using ta by auto
    next
      case later: False
      then have "index0 (js_sort (compareFn E) (a # xs)) = Some h"
        using srt cmp_le_compareFn [OF ta h(3)] by (simp add: index0_def)
      moreover have "\<forall>y\<in>set (a # xs). \<forall>u. Date_value E (dose_item.scheduled_time y) = Some u \<longrightarrow> th \<le> u"
        using later h(4) ta by fastforce
      ultimately show ?thesis using h(2,3) by auto
    qed
  qed
qed

text \<open>
  With valid dates the model is the stable sort by time value, the order ECMAScript
  prescribes for a consistent comparator; so the first element of the result is the first
  item of the array, in its order, among those of the earliest time.
\<close>

lemma js_insert_insort:
  assumes "Date_value E (dose_item.scheduled_time a) \<noteq> None" and "valid_dates E ys"
  shows "js_insert (compareFn E) a ys = insort_key (time_of E) a ys"
  using assms(2)
proof (induction ys)
  case Nil
  then show ?case by simp
next
  case (Cons y ys)
  from assms(1) obtain ta where ta: "Date_value E (dose_item.scheduled_time a) = Some ta" by auto
  from Cons.prems obtain ty where ty: "Date_value E (dose_item.scheduled_time y) = Some ty"
    and v: "valid_dates E ys" by (auto simp: valid_dates_def)
  show ?case using Cons.IH [OF v] cmp_le_compareFn [OF ta ty] ta ty
    by (simp add: time_of_def)
qed

lemma valid_dates_js_sort: "valid_dates E (js_sort c xs) = valid_dates E xs"
  by (simp add: valid_dates_def list_all_iff js_sort_set)

lemma js_sort_stable_sort:
  "valid_dates E xs \<Longrightarrow> js_sort (compareFn E) xs = sort_key (time_of E) xs"
proof (induction xs)
  case Nil
  then show ?case by simp
next
  case (Cons a xs)
  then have a: "Date_value E (dose_item.scheduled_time a) \<noteq> None" and v: "valid_dates E xs"
    by (auto simp: valid_dates_def)
  have "valid_dates E (js_sort (compareFn E) xs)"
    using v by (simp add: valid_dates_js_sort)
  from js_insert_insort [OF a this] Cons.IH [OF v] show ?case by simp
qed

lemma js_sort_first_of_earliest:
  assumes "valid_dates E xs" and "index0 (js_sort (compareFn E) xs) = Some x"
  shows "index0 (filter (\<lambda>y. time_of E y = time_of E x) xs) = Some x"
proof -
  let ?s = "sort_key (time_of E) xs"
  have s: "js_sort (compareFn E) xs = ?s" using assms(1) by (rule js_sort_stable_sort)
  with assms(2) obtain rest where r: "?s = x # rest"
    by (auto simp: index0_def split: list.splits)
  have "filter (\<lambda>y. time_of E y = time_of E x) ?s = filter (\<lambda>y. time_of E y = time_of E x) xs"
    by (rule sort_key_stable)
  then show ?thesis using r by (auto simp: index0_def split: list.splits)
qed

text \<open>The sort depends on the comparator only at the elements of the array, and commutes
  with reading the elements through a function.\<close>

lemma js_insert_cong:
  "(\<And>y. y \<in> set xs \<Longrightarrow> c x y = d x y) \<Longrightarrow> js_insert c x xs = js_insert d x xs"
  by (induction xs) (auto simp: cmp_le_def)

lemma js_sort_cong:
  "(\<And>x y. x \<in> set xs \<Longrightarrow> y \<in> set xs \<Longrightarrow> c x y = d x y) \<Longrightarrow> js_sort c xs = js_sort d xs"
proof (induction xs)
  case Nil
  then show ?case by simp
next
  case (Cons a xs)
  have "js_sort c xs = js_sort d xs" using Cons by simp
  moreover have "js_insert c a (js_sort d xs) = js_insert d a (js_sort d xs)"
    by (rule js_insert_cong) (simp add: js_sort_set Cons.prems)
  ultimately show ?case by simp
qed

lemma js_insert_map:
  "map f (js_insert (\<lambda>a b. c (f a) (f b)) x xs) = js_insert c (f x) (map f xs)"
  by (induction xs) (auto simp: cmp_le_def)

lemma js_sort_map:
  "map f (js_sort (\<lambda>a b. c (f a) (f b)) xs) = js_sort c (map f xs)"
  by (induction xs) (auto simp: js_insert_map)

section \<open>Properties of the effects\<close>

lemmas action_defs = catch_finally_def fetchStatus_def fetchStatus_try_def fetchData_def
  fetchData_try_def handleConfirm_def handleConfirm_try_def Let_def

lemma catch_finally_snd: "snd (catch_finally r) = None"
  by (simp add: catch_finally_def split: prod.splits)

lemma foldl_senior_status:
  "\<not> list_ex sets_data effs \<Longrightarrow>
   senior_state.status (foldl senior_apply s effs) = senior_state.status s"
  by (induction effs arbitrary: s) (auto simp: senior_apply_def sets_data_def split: effect.splits)

lemma nextPending_demo: "nextPending demo_env (Some demo_status) = Some item_C"
  by (simp add: nextPending_def demo_status_def pending_of_def item_A_def item_B_def item_C_def
      index0_def cmp_le_def compareFn_def demo_env_def)

lemma nextPending_all_taken: "nextPending E (Some all_taken_status) = None"
  by (simp add: nextPending_def all_taken_status_def pending_of_def item_A_def)

lemma fetchStatus_requests:
  "requests (fst (fetchStatus E uid r)) =
     (case today_url E uid of Inl _ \<Rightarrow> [] | Inr url \<Rightarrow> [GET url])"
  by (simp add: fetchStatus_def fetchStatus_try_def catch_finally_def requests_def Let_def
      split: fetch_result.splits json_result.splits sum.splits)

lemma requests_append: "requests (xs @ ys) = requests xs @ requests ys"
  by (simp add: requests_def)

lemma handleConfirm_requests:
  "requests (fst (handleConfirm E uid (Some np) rp rg)) =
     confirm_request E uid np #
       (case rp of
          Response ok _ \<Rightarrow>
            if ok then (case today_url E uid of Inl _ \<Rightarrow> [] | Inr url \<Rightarrow> [GET url]) else []
        | Rejected _ \<Rightarrow> [])"
proof (cases rp)
  case (Rejected m)
  then show ?thesis
    by (simp add: handleConfirm_def handleConfirm_try_def catch_finally_def requests_def)
next
  case (Response ok body)
  show ?thesis
  proof (cases ok)
    case True
    obtain effs thrown where f: "fetchStatus E uid rg = (effs, thrown)"
      by (cases "fetchStatus E uid rg")
    then have "requests effs = (case today_url E uid of Inl _ \<Rightarrow> [] | Inr url \<Rightarrow> [GET url])"
      using fetchStatus_requests [of E uid rg] by simp
    moreover have "thrown = None"
      using f catch_finally_snd [of "fetchStatus_try E uid rg"] by (simp add: fetchStatus_def)
    ultimately show ?thesis using Response True f
      by (simp add: handleConfirm_def handleConfirm_try_def catch_finally_def requests_append)
        (simp add: requests_def)
  next
    case False
    then show ?thesis using Response
      by (simp add: handleConfirm_def handleConfirm_try_def catch_finally_def requests_def)
  qed
qed

lemma no_post_in_reload:
  "filter (\<lambda>q. case q of POST _ _ _ \<Rightarrow> True | GET _ \<Rightarrow> False)
       (case rp of
          Response ok _ \<Rightarrow>
            if ok then (case today_url E u of Inl _ \<Rightarrow> [] | Inr url \<Rightarrow> [GET url]) else []
        | Rejected _ \<Rightarrow> []) = []"
proof (cases rp)
  case (Rejected m)
  then show ?thesis by simp
next
  case (Response ok body)
  show ?thesis
  proof (cases ok)
    case False
    then show ?thesis using Response by simp
  next
    case True
    show ?thesis
    proof (cases "today_url E u")
      case (Inl m)
      then show ?thesis using Response True by simp
    next
      case (Inr url)
      then show ?thesis using Response True by simp
    qed
  qed
qed

text \<open>The messages a view shows after a load, by cause.\<close>

lemma senior_fetchStatus_error:
  "error (senior_fetchStatus E s r) =
     (case encodeURIComponent E (userId s) of
        Inl u \<Rightarrow> u
      | Inr _ \<Rightarrow>
          (case r of
             Rejected m \<Rightarrow> m
           | Response ok body \<Rightarrow>
               if \<not> ok then ''Failed to fetch status''
               else (case body of SyntaxError m \<Rightarrow> m | Json _ \<Rightarrow> [])))"
  by (simp add: senior_fetchStatus_def fetchStatus_def fetchStatus_try_def catch_finally_def
      today_url_def senior_apply_def Let_def
      split: fetch_result.splits json_result.splits sum.splits)

lemma senior_fetchStatus_status:
  "senior_state.status (senior_fetchStatus E s r) =
     (case encodeURIComponent E (userId s) of
        Inl _ \<Rightarrow> senior_state.status s
      | Inr _ \<Rightarrow>
          (case r of
             Response True (Json d) \<Rightarrow> d
           | _ \<Rightarrow> senior_state.status s))"
  by (simp add: senior_fetchStatus_def fetchStatus_def fetchStatus_try_def catch_finally_def
      today_url_def senior_apply_def Let_def
      split: fetch_result.splits json_result.splits sum.splits bool.splits)

lemma caregiver_fetchData_error:
  "error (caregiver_fetchData E c r) =
     (case encodeURIComponent E (patientId c) of
        Inl u \<Rightarrow> u
      | Inr _ \<Rightarrow>
          (case r of
             Rejected m \<Rightarrow> m
           | Response ok body \<Rightarrow>
               if \<not> ok then ''Failed to load dashboard''
               else (case body of SyntaxError m \<Rightarrow> m | Json _ \<Rightarrow> [])))"
  by (simp add: caregiver_fetchData_def fetchData_def fetchData_try_def catch_finally_def
      dashboard_url_def caregiver_apply_def Let_def
      split: fetch_result.splits json_result.splits sum.splits)

lemma caregiver_fetchData_data:
  "data (caregiver_fetchData E c r) =
     (case encodeURIComponent E (patientId c) of
        Inl _ \<Rightarrow> data c
      | Inr _ \<Rightarrow>
          (case r of
             Response True (Json j) \<Rightarrow> j
           | _ \<Rightarrow> data c))"
  by (simp add: caregiver_fetchData_def fetchData_def fetchData_try_def catch_finally_def
      dashboard_url_def caregiver_apply_def Let_def
      split: fetch_result.splits json_result.splits sum.splits bool.splits)

lemma caregiver_fetchData_loading: "loading (caregiver_fetchData E c r) = False"
  by (simp add: caregiver_fetchData_def fetchData_def fetchData_try_def catch_finally_def
      dashboard_url_def caregiver_apply_def Let_def
      split: fetch_result.splits json_result.splits sum.splits)

section \<open>The store version computes the same dose\<close>

lemma nextPending_store_objs: "objs (fst (nextPending_store E h ref)) = objs h"
  by (simp add: nextPending_store_def Let_def split: option.splits)

lemma nextPending_store_arrs:
  "a \<noteq> fresh h \<Longrightarrow> arrs (fst (nextPending_store E h ref)) a = arrs h a"
  by (simp add: nextPending_store_def Let_def split: option.splits)

lemma deref_valid: "refs_valid h refs \<Longrightarrow> deref h refs = map (\<lambda>r. the (objs h r)) refs"
  by (induction refs) (auto simp: refs_valid_def deref_def)

lemma filter_refs:
  "refs_valid h refs \<Longrightarrow>
   pending_of (map (\<lambda>r. the (objs h r)) refs) =
   map (\<lambda>r. the (objs h r)) (filter (\<lambda>r. status_of_ref h r \<noteq> Some ''taken'') refs)"
  by (induction refs) (auto simp: refs_valid_def pending_of_def status_of_ref_def)

lemma refs_valid_filter: "refs_valid h refs \<Longrightarrow> refs_valid h (filter P refs)"
  by (induction refs) (auto simp: refs_valid_def)

lemma nextPending_store_refines:
  assumes "arrs h a = Some refs" and "refs_valid h refs"
  shows "Option.bind (snd (nextPending_store E h (Some a))) (objs h)
         = nextPending E (Some \<lparr>taken = t, total_doses = n, items = Some (deref h refs)\<rparr>)"
proof -
  let ?f = "\<lambda>r. the (objs h r)"
  let ?pend = "filter (\<lambda>r. status_of_ref h r \<noteq> Some ''taken'') refs"
  let ?h1 = "h\<lparr>arrs := (arrs h)(fresh h \<mapsto> ?pend), fresh := Suc (fresh h)\<rparr>"
  have pv: "refs_valid h ?pend" using assms(2) by (rule refs_valid_filter)
  have pend: "pending_of (deref h refs) = map ?f ?pend"
    using assms(2) by (simp add: deref_valid filter_refs)
  have "js_sort (compare_refs E ?h1) ?pend = js_sort (\<lambda>x y. compareFn E (?f x) (?f y)) ?pend"
  proof (rule js_sort_cong)
    fix x y assume "x \<in> set ?pend" and "y \<in> set ?pend"
    then obtain ox oy where "objs h x = Some ox" and "objs h y = Some oy"
      using pv unfolding refs_valid_def list_all_iff by blast
    then show "compare_refs E ?h1 x y = compareFn E (?f x) (?f y)"
      by (simp add: compare_refs_def)
  qed
  then have srt: "map ?f (js_sort (compare_refs E ?h1) ?pend) = js_sort (compareFn E) (map ?f ?pend)"
    using js_sort_map [of ?f "compareFn E" ?pend] by simp
  have valid_sorted: "refs_valid h (js_sort (compare_refs E ?h1) ?pend)"
    using pv by (simp add: refs_valid_def list_all_iff js_sort_set)
  have bind: "\<And>xs. refs_valid h xs \<Longrightarrow> Option.bind (index0 xs) (objs h) = index0 (map ?f xs)"
    by (case_tac xs) (auto simp: index0_def refs_valid_def)
  show ?thesis
  proof (cases "?pend = []")
    case True
    then show ?thesis using assms(1) pend
      by (simp add: nextPending_store_def nextPending_def Let_def)
  next
    case False
    then show ?thesis using assms(1) pend bind [OF valid_sorted] srt
      by (simp add: nextPending_store_def nextPending_def Let_def)
  qed
qed

section \<open>Claims\<close>

text \<open>
  C1. Whenever the status carries an item collection whose non-taken items have valid
  scheduled times: the derivation keeps the items whose status is not \<^verbatim>\<open>'taken'\<close>; if
  none is left the result is none (\<^verbatim>\<open>null\<close>); otherwise the result is one of the
  non-taken items, and its scheduled time is the minimum among the non-taken items.
\<close>

theorem nextPending_earliest_pending:
  assumes "items s = Some its"
    and "\<forall>i\<in>set its. dose_item.status i \<noteq> ''taken'' \<longrightarrow>
           Date_value E (dose_item.scheduled_time i) \<noteq> None"
  shows "(filter (\<lambda>i. dose_item.status i \<noteq> ''taken'') its = [] \<longrightarrow>
            nextPending E (Some s) = None) \<and>
         (filter (\<lambda>i. dose_item.status i \<noteq> ''taken'') its \<noteq> [] \<longrightarrow>
            (\<exists>x t. nextPending E (Some s) = Some x \<and>
                   x \<in> set its \<and> dose_item.status x \<noteq> ''taken'' \<and>
                   Date_value E (dose_item.scheduled_time x) = Some t \<and>
                   (\<forall>y\<in>set its. dose_item.status y \<noteq> ''taken'' \<longrightarrow>
                      (\<forall>u. Date_value E (dose_item.scheduled_time y) = Some u \<longrightarrow> t \<le> u))))"
proof (cases "pending_of its = []")
  case True
  then show ?thesis using assms(1) by (simp add: nextPending_def pending_of_def)
next
  case False
  have "valid_dates E (pending_of its)"
    using assms(2) by (simp add: valid_dates_def pending_of_def list_all_iff)
  from js_sort_head_min [OF this False] obtain x t where
    x: "index0 (js_sort (compareFn E) (pending_of its)) = Some x" "x \<in> set (pending_of its)"
       "Date_value E (dose_item.scheduled_time x) = Some t"
       "\<forall>y\<in>set (pending_of its). \<forall>u. Date_value E (dose_item.scheduled_time y) = Some u \<longrightarrow> t \<le> u"
    by blast
  have "\<exists>x t. nextPending E (Some s) = Some x \<and>
                   x \<in> set its \<and> dose_item.status x \<noteq> ''taken'' \<and>
                   Date_value E (dose_item.scheduled_time x) = Some t \<and>
                   (\<forall>y\<in>set its. dose_item.status y \<noteq> ''taken'' \<longrightarrow>
                      (\<forall>u. Date_value E (dose_item.scheduled_time y) = Some u \<longrightarrow> t \<le> u))"
  proof (intro exI conjI)
    show "nextPending E (Some s) = Some x"
      using assms(1) False x(1) by (simp add: nextPending_def)
    show "x \<in> set its" and "dose_item.status x \<noteq> ''taken''"
      using x(2) by (simp_all add: pending_of_def)
    show "Date_value E (dose_item.scheduled_time x) = Some t"
      by (rule x(3))
    show "\<forall>y\<in>set its. dose_item.status y \<noteq> ''taken'' \<longrightarrow>
            (\<forall>u. Date_value E (dose_item.scheduled_time y) = Some u \<longrightarrow> t \<le> u)"
      using x(4) by (simp add: pending_of_def)
  qed
  moreover have "filter (\<lambda>i. dose_item.status i \<noteq> ''taken'') its \<noteq> []"
    using False unfolding pending_of_def .
  ultimately show ?thesis by (intro conjI impI) (erule notE, assumption)
qed

theorem nextPending_earliest_pending_witness:
  "items demo_status = Some [item_A, item_B, item_C] \<and>
   Date_value demo_env (dose_item.scheduled_time item_B) = Some 1704139200000 \<and>
   Date_value demo_env (dose_item.scheduled_time item_C) = Some 1704110400000 \<and>
   filter (\<lambda>i. dose_item.status i \<noteq> ''taken'') [item_A, item_B, item_C] \<noteq> [] \<and>
   (\<exists>x t. nextPending demo_env (Some demo_status) = Some x \<and>
          x \<in> set [item_A, item_B, item_C] \<and> dose_item.status x \<noteq> ''taken'' \<and>
          Date_value demo_env (dose_item.scheduled_time x) = Some t \<and>
          (\<forall>y\<in>set [item_A, item_B, item_C]. dose_item.status y \<noteq> ''taken'' \<longrightarrow>
             (\<forall>u. Date_value demo_env (dose_item.scheduled_time y) = Some u \<longrightarrow> t \<le> u))) \<and>
   items all_taken_status = Some [item_A] \<and>
   filter (\<lambda>i. dose_item.status i \<noteq> ''taken'') [item_A] = [] \<and>
   nextPending demo_env (Some all_taken_status) = None"
proof -
  have h1: "items demo_status = Some [item_A, item_B, item_C]"
    by (simp add: demo_status_def)
  have h2: "\<forall>i\<in>set [item_A, item_B, item_C]. dose_item.status i \<noteq> ''taken'' \<longrightarrow>
      Date_value demo_env (dose_item.scheduled_time i) \<noteq> None"
    by (simp add: item_A_def item_B_def item_C_def demo_env_def)
  have h3: "filter (\<lambda>i. dose_item.status i \<noteq> ''taken'') [item_A, item_B, item_C] \<noteq> []"
    by (simp add: item_A_def item_B_def item_C_def)
  have k1: "items all_taken_status = Some [item_A]"
    by (simp add: all_taken_status_def)
  have k2: "\<forall>i\<in>set [item_A]. dose_item.status i \<noteq> ''taken'' \<longrightarrow>
      Date_value demo_env (dose_item.scheduled_time i) \<noteq> None"
    by (simp add: item_A_def)
  have k3: "filter (\<lambda>i. dose_item.status i \<noteq> ''taken'') [item_A] = []"
    by (simp add: item_A_def)
  note A = nextPending_earliest_pending [OF h1 h2, THEN conjunct2, THEN mp, OF h3]
  note B = nextPending_earliest_pending [OF k1 k2, THEN conjunct1, THEN mp, OF k3]
  have d: "Date_value demo_env (dose_item.scheduled_time item_B) = Some 1704139200000"
    "Date_value demo_env (dose_item.scheduled_time item_C) = Some 1704110400000"
    by (simp_all add: item_B_def item_C_def demo_env_def)
  show ?thesis
    using h1 d h3 A k1 k3 B by (intro conjI) assumption+
qed

text \<open>
  C2. Whenever a next pending dose exists, Confirm issues exactly one POST, the first
  request it makes: to the confirmation endpoint, with the body members \<^verbatim>\<open>user_id\<close> (the
  patient identifier), \<^verbatim>\<open>medication_id\<close> and \<^verbatim>\<open>scheduled_time_iso\<close> (those of the next
  pending dose), whatever the backend answers.
\<close>

theorem handleConfirm_posts_next_pending:
  assumes "nextPending E (senior_state.status s) = Some np"
  shows "filter (\<lambda>q. case q of POST _ _ _ \<Rightarrow> True | GET _ \<Rightarrow> False)
           (requests (fst (confirm_run E s rp rg))) =
         [POST (API_BASE E @ ''/api/senior/confirm'')
            [(''Content-Type'', ''application/json'')]
            [(''user_id'', userId s),
             (''medication_id'', dose_item.medication_id np),
             (''scheduled_time_iso'', dose_item.scheduled_time np)]] \<and>
         hd (requests (fst (confirm_run E s rp rg))) =
         POST (API_BASE E @ ''/api/senior/confirm'')
            [(''Content-Type'', ''application/json'')]
            [(''user_id'', userId s),
             (''medication_id'', dose_item.medication_id np),
             (''scheduled_time_iso'', dose_item.scheduled_time np)]"
proof -
  have rq: "requests (fst (confirm_run E s rp rg)) =
     confirm_request E (userId s) np #
       (case rp of
          Response ok _ \<Rightarrow>
            if ok then (case today_url E (userId s) of Inl _ \<Rightarrow> [] | Inr url \<Rightarrow> [GET url]) else []
        | Rejected _ \<Rightarrow> [])"
    unfolding confirm_run_def assms by (rule handleConfirm_requests)
  have post: "confirm_request E (userId s) np =
         POST (API_BASE E @ ''/api/senior/confirm'')
            [(''Content-Type'', ''application/json'')]
            [(''user_id'', userId s),
             (''medication_id'', dose_item.medication_id np),
             (''scheduled_time_iso'', dose_item.scheduled_time np)]"
    by (simp add: confirm_request_def confirm_url_def)
  show ?thesis
    unfolding rq post by (simp only: filter.simps no_post_in_reload list.sel http_request.case if_True simp_thms)
qed

theorem handleConfirm_posts_next_pending_witness:
  "nextPending demo_env (senior_state.status demo_senior) = Some item_C \<and>
   filter (\<lambda>q. case q of POST _ _ _ \<Rightarrow> True | GET _ \<Rightarrow> False)
     (requests (fst (confirm_run demo_env demo_senior
        (Response True (Json ())) (Response True (Json (Some all_taken_status)))))) =
   [POST ''http://localhost:8000/api/senior/confirm''
      [(''Content-Type'', ''application/json'')]
      [(''user_id'', ''demo-patient''),
       (''medication_id'', ''C''),
       (''scheduled_time_iso'', ''2024-01-01T12:00:00Z'')]]"
proof -
  have h: "nextPending demo_env (senior_state.status demo_senior) = Some item_C"
    by (simp add: demo_senior_def nextPending_demo)
  show ?thesis
    using handleConfirm_posts_next_pending [OF h,
        of "Response True (Json ())" "Response True (Json (Some all_taken_status))"] h
    by (simp add: demo_env_def demo_senior_def senior_init_def item_C_def)
qed

text \<open>
  C3. Whenever no next pending dose exists, Confirm does nothing: it performs no effect
  at all, so no network call, and the state of the view (status, error, loading and the
  patient identifier) after it is the state before it.
\<close>

theorem handleConfirm_without_pending_is_noop:
  assumes "nextPending E (senior_state.status s) = None"
  shows "confirm_run E s rp rg = ([], None) \<and>
         requests (fst (confirm_run E s rp rg)) = [] \<and>
         senior_handleConfirm E s rp rg = s"
  using assms
  by (simp add: confirm_run_def handleConfirm_def senior_handleConfirm_def requests_def)

theorem handleConfirm_without_pending_is_noop_witness:
  "nextPending demo_env (senior_state.status (demo_senior\<lparr>senior_state.status := Some all_taken_status\<rparr>)) = None \<and>
   requests (fst (confirm_run demo_env (demo_senior\<lparr>senior_state.status := Some all_taken_status\<rparr>)
      (Response True (Json ())) (Rejected ''Failed to fetch''))) = [] \<and>
   senior_handleConfirm demo_env (demo_senior\<lparr>senior_state.status := Some all_taken_status\<rparr>)
      (Response True (Json ())) (Rejected ''Failed to fetch'')
     = demo_senior\<lparr>senior_state.status := Some all_taken_status\<rparr>"
proof -
  have h: "nextPending demo_env (senior_state.status (demo_senior\<lparr>senior_state.status := Some all_taken_status\<rparr>)) = None"
    by (simp add: nextPending_all_taken)
  show ?thesis
    using handleConfirm_without_pending_is_noop [OF h,
        of "Response True (Json ())" "Rejected ''Failed to fetch''"] h
    by (simp add: requests_def)
qed

text \<open>
  C4 (the claim as stated fails). The status is loaded, the patient identifier has since
  been edited to a lone surrogate, and the confirmation POST succeeds: line 17 throws
  while it builds the URL, and the POST is the only request that Confirm makes.
\<close>

theorem handleConfirm_success_without_reload:
  "nextPending demo_env (senior_state.status (demo_senior\<lparr>userId := lone_surrogate\<rparr>)) = Some item_C \<and>
   requests (fst (confirm_run demo_env (demo_senior\<lparr>userId := lone_surrogate\<rparr>)
      (Response True (Json ())) (Response True (Json (Some all_taken_status))))) =
     [POST ''http://localhost:8000/api/senior/confirm''
        [(''Content-Type'', ''application/json'')]
        [(''user_id'', lone_surrogate),
         (''medication_id'', ''C''),
         (''scheduled_time_iso'', ''2024-01-01T12:00:00Z'')]]"
proof -
  have np: "nextPending demo_env (senior_state.status (demo_senior\<lparr>userId := lone_surrogate\<rparr>))
              = Some item_C"
    by (simp add: demo_senior_def senior_init_def nextPending_demo)
  have url: "today_url demo_env lone_surrogate = Inl ''URI malformed''"
    by (simp add: today_url_def demo_env_def)
  have "requests (fst (confirm_run demo_env (demo_senior\<lparr>userId := lone_surrogate\<rparr>)
      (Response True (Json ())) (Response True (Json (Some all_taken_status))))) =
     [confirm_request demo_env lone_surrogate item_C]"
    using np by (simp add: confirm_run_def handleConfirm_requests url)
  then show ?thesis
    using np by (simp add: confirm_request_def confirm_url_def demo_env_def item_C_def)
qed

text \<open>
  C4 (amended). Whenever a next pending dose exists, the confirmation POST succeeds (a 2xx
  response) and the patient identifier can be URI-encoded, Confirm makes exactly two
  requests, the POST and then one GET of the today-status endpoint; before that GET no
  effect sets the Daily Status, which is still the one Confirm started from, and after it
  no further request is made.
\<close>

theorem handleConfirm_success_reloads_once:
  assumes "nextPending E (senior_state.status s) = Some np" and "rp = Response True b"
    and "encodeURIComponent E (userId s) = Inr enc"
  shows "requests (fst (confirm_run E s rp rg)) =
           [confirm_request E (userId s) np,
            GET (API_BASE E @ ''/api/senior/today?user_id='' @ enc)] \<and>
         (\<exists>pre post.
            fst (confirm_run E s rp rg) =
              pre @ [Fetch (GET (API_BASE E @ ''/api/senior/today?user_id='' @ enc))] @ post \<and>
            \<not> list_ex sets_data pre \<and>
            senior_state.status (foldl senior_apply s pre) = senior_state.status s \<and>
            requests pre = [confirm_request E (userId s) np] \<and>
            requests post = [])"
proof -
  let ?get = "GET (API_BASE E @ ''/api/senior/today?user_id='' @ enc)"
  let ?pre = "[SetLoading True, SetError [], Fetch (confirm_request E (userId s) np),
               SetLoading True, SetError []]"
  let ?post = "(case rg of
                  Rejected m \<Rightarrow> [SetError m]
                | Response ok body \<Rightarrow>
                    if \<not> ok then [SetError ''Failed to fetch status'']
                    else (case body of SyntaxError m \<Rightarrow> [SetError m] | Json d \<Rightarrow> [SetData d]))
               @ [SetLoading False, SetLoading False]"
  have run: "fst (confirm_run E s rp rg) = ?pre @ [Fetch ?get] @ ?post"
    using assms
    by (auto simp add: confirm_run_def action_defs today_url_def
        split: fetch_result.splits json_result.splits)
  have no_set: "\<not> list_ex sets_data ?pre"
    by (simp add: sets_data_def)
  have rq: "requests ?pre = [confirm_request E (userId s) np]"
    by (simp add: requests_def)
  have rpost: "requests ?post = []"
    by (auto simp add: requests_def split: fetch_result.splits json_result.splits)
  have all: "requests (fst (confirm_run E s rp rg)) = [confirm_request E (userId s) np, ?get]"
    unfolding run using rq rpost by (simp add: requests_def)
  show ?thesis
    using run no_set rq rpost all foldl_senior_status [OF no_set] by blast
qed

theorem handleConfirm_success_reloads_once_witness:
  "nextPending demo_env (senior_state.status demo_senior) = Some item_C \<and>
   encodeURIComponent demo_env (userId demo_senior) = Inr ''demo-patient'' \<and>
   requests (fst (confirm_run demo_env demo_senior
      (Response True (Json ())) (Response True (Json (Some all_taken_status))))) =
     [confirm_request demo_env ''demo-patient'' item_C,
      GET ''http://localhost:8000/api/senior/today?user_id=demo-patient'']"
proof -
  have h: "nextPending demo_env (senior_state.status demo_senior) = Some item_C"
    by (simp add: demo_senior_def nextPending_demo)
  have e: "encodeURIComponent demo_env (userId demo_senior) = Inr ''demo-patient''"
    by (simp add: demo_env_def demo_senior_def senior_init_def lone_surrogate_def)
  show ?thesis
    using handleConfirm_success_reloads_once [OF h refl e,
        of "Json ()" "Response True (Json (Some all_taken_status))"] h e
    by (simp add: demo_env_def demo_senior_def senior_init_def)
qed

text \<open>
  C5 (the claim as stated fails). A status fetch whose request is rejected with an error
  of empty message leaves the error state empty.
\<close>

theorem fetchStatus_rejected_empty_message:
  "error (senior_fetchStatus demo_env demo_senior (Rejected [])) = []"
  by (simp add: senior_fetchStatus_error demo_env_def demo_senior_def senior_init_def
      lone_surrogate_def)

text \<open>
  C5 (amended). A status fetch that fails leaves the previously loaded Daily Status
  unchanged and sets the error state to the message of the failure: for a non-2xx
  response the non-empty text \<^verbatim>\<open>Failed to fetch status\<close>, for a rejected request the
  message of the rejection, whatever it is. (A response or a rejection is the answer to a
  request, so the request was built: the patient identifier was URI-encoded.)
\<close>

theorem fetchStatus_failure_keeps_status:
  "senior_state.status (senior_fetchStatus E s (Response False b)) = senior_state.status s \<and>
   senior_state.status (senior_fetchStatus E s (Rejected m)) = senior_state.status s \<and>
   (encodeURIComponent E (userId s) = Inr enc \<longrightarrow>
      error (senior_fetchStatus E s (Response False b)) = ''Failed to fetch status'' \<and>
      error (senior_fetchStatus E s (Response False b)) \<noteq> [] \<and>
      error (senior_fetchStatus E s (Rejected m)) = m)"
  by (simp add: senior_fetchStatus_error senior_fetchStatus_status split: sum.splits)

theorem fetchStatus_failure_keeps_status_witness:
  "encodeURIComponent demo_env (userId demo_senior) = Inr ''demo-patient'' \<and>
   senior_state.status (senior_fetchStatus demo_env demo_senior (Response False (Json None)))
     = Some demo_status \<and>
   error (senior_fetchStatus demo_env demo_senior (Response False (Json None)))
     = ''Failed to fetch status'' \<and>
   senior_state.status (senior_fetchStatus demo_env demo_senior (Rejected ''Failed to fetch''))
     = Some demo_status \<and>
   error (senior_fetchStatus demo_env demo_senior (Rejected ''Failed to fetch'')) = ''Failed to fetch''"
proof -
  have e: "encodeURIComponent demo_env (userId demo_senior) = Inr ''demo-patient''"
    by (simp add: demo_env_def demo_senior_def senior_init_def lone_surrogate_def)
  show ?thesis
    using fetchStatus_failure_keeps_status [of demo_env demo_senior "Json None"
        "''Failed to fetch''" "''demo-patient''"] e
    by (simp add: demo_senior_def senior_init_def)
qed

text \<open>
  C6. A dashboard load that succeeds stores the one fetched snapshot, in a single call
  of \<^verbatim>\<open>setData\<close>, and the three panels rendered afterwards are all those of that
  snapshot; a load that fails (rejected request, non-2xx response, unreadable body, or a
  patient identifier that cannot be URI-encoded, for which no request is made) sets the
  error state to the message of the failure and keeps the prior snapshot.
\<close>

theorem fetchData_replaces_or_retains:
  "(encodeURIComponent E (patientId s) = Inr enc \<longrightarrow>
      data (caregiver_fetchData E s (Response True (Json j))) = j \<and>
      filter sets_data (fst (fetchData E (patientId s) (Response True (Json j)))) = [SetData j] \<and>
      caregiver_panels (caregiver_fetchData E s (Response True (Json (Some d)))) =
        Some (history_panel d, missed_panel d, alerts_panel d) \<and>
      error (caregiver_fetchData E s (Rejected m)) = m \<and>
      error (caregiver_fetchData E s (Response False b)) = ''Failed to load dashboard'' \<and>
      error (caregiver_fetchData E s (Response True (SyntaxError m))) = m) \<and>
   data (caregiver_fetchData E s (Rejected m)) = data s \<and>
   data (caregiver_fetchData E s (Response False b)) = data s \<and>
   data (caregiver_fetchData E s (Response True (SyntaxError m))) = data s \<and>
   (encodeURIComponent E (patientId s) = Inl u \<longrightarrow>
      data (caregiver_fetchData E s r) = data s \<and>
      error (caregiver_fetchData E s r) = u \<and>
      requests (fst (fetchData E (patientId s) r)) = [])"
proof -
  have "encodeURIComponent E (patientId s) = Inr enc \<Longrightarrow>
        filter sets_data (fst (fetchData E (patientId s) (Response True (Json j)))) = [SetData j]"
    by (simp add: fetchData_def fetchData_try_def catch_finally_def dashboard_url_def sets_data_def)
  moreover have "encodeURIComponent E (patientId s) = Inl u \<Longrightarrow>
        requests (fst (fetchData E (patientId s) r)) = []"
    by (simp add: fetchData_def fetchData_try_def catch_finally_def dashboard_url_def requests_def)
  ultimately show ?thesis
    by (simp add: caregiver_fetchData_error caregiver_fetchData_data caregiver_panels_def
        caregiver_fetchData_loading split: sum.splits)
qed

theorem fetchData_replaces_or_retains_witness:
  "encodeURIComponent demo_env (patientId caregiver_init) = Inr ''demo-patient'' \<and>
   data (caregiver_fetchData demo_env caregiver_init (Response True (Json (Some empty_dashboard))))
     = Some empty_dashboard \<and>
   caregiver_panels (caregiver_fetchData demo_env caregiver_init
       (Response True (Json (Some empty_dashboard)))) =
     Some ([], [Paragraph ''No missed doses in the last week.''],
           [Paragraph ''All inventories look good.'']) \<and>
   error (caregiver_fetchData demo_env caregiver_init (Response False (Json None)))
     = ''Failed to load dashboard'' \<and>
   encodeURIComponent demo_env (patientId (caregiver_init\<lparr>patientId := lone_surrogate\<rparr>))
     = Inl ''URI malformed'' \<and>
   error (caregiver_fetchData demo_env (caregiver_init\<lparr>patientId := lone_surrogate\<rparr>)
       (Response True (Json (Some empty_dashboard)))) = ''URI malformed'' \<and>
   data (caregiver_fetchData demo_env (caregiver_init\<lparr>patientId := lone_surrogate\<rparr>)
       (Response True (Json (Some empty_dashboard)))) = None"
proof -
  have e: "encodeURIComponent demo_env (patientId caregiver_init) = Inr ''demo-patient''"
    by (simp add: demo_env_def caregiver_init_def lone_surrogate_def)
  have t: "encodeURIComponent demo_env (patientId (caregiver_init\<lparr>patientId := lone_surrogate\<rparr>))
             = Inl ''URI malformed''"
    by (simp add: demo_env_def)
  note A = fetchData_replaces_or_retains [of demo_env caregiver_init "''demo-patient''"
      "Some empty_dashboard" empty_dashboard "''Failed to fetch''" "Json None"]
  note B = fetchData_replaces_or_retains [of demo_env "caregiver_init\<lparr>patientId := lone_surrogate\<rparr>"
      _ _ _ _ _ "''URI malformed''" "Response True (Json (Some empty_dashboard))"]
  show ?thesis
    using A B e t
    by (simp add: caregiver_init_def history_panel_def missed_panel_def alerts_panel_def
        empty_dashboard_def)
qed

text \<open>
  C7 (the claim as stated fails). The same status fetch shows one message when the
  response is non-2xx and another when the body is not JSON.
\<close>

theorem failure_messages_differ:
  "error (senior_fetchStatus demo_env demo_senior (Response False (Json None))) \<noteq>
   error (senior_fetchStatus demo_env demo_senior
            (Response True (SyntaxError ''Unexpected end of JSON input'')))"
  by (simp add: senior_fetchStatus_error demo_env_def demo_senior_def senior_init_def
      lone_surrogate_def)

text \<open>
  C7 (amended). Every failure of an HTTP call in either view is caught by the action that
  made the call: the action throws nothing, and the error state is the message of the
  error caught, which is the fixed text of the action for a non-2xx response
  (\<^verbatim>\<open>Failed to fetch status\<close>, \<^verbatim>\<open>Failed to confirm dose\<close>, \<^verbatim>\<open>Failed to load dashboard\<close>)
  and the message of the rejection or of the JSON parser otherwise. This holds also for
  the reload that a successful Confirm makes; and the error thrown while a URL is built,
  before any call, is caught and shown the same way.
\<close>

theorem failures_caught_with_their_message:
  "snd (fetchStatus E uid r) = None \<and>
   snd (handleConfirm E uid np_opt rp rg) = None \<and>
   snd (fetchData E pid r') = None \<and>
   error (foldl senior_apply s (fst (handleConfirm E uid (Some np) (Response False b') rg)))
     = ''Failed to confirm dose'' \<and>
   error (foldl senior_apply s (fst (handleConfirm E uid (Some np) (Rejected m :: unit fetch_result) rg)))
     = m \<and>
   (encodeURIComponent E (userId s) = Inr enc \<longrightarrow>
      error (senior_fetchStatus E s (Response False b)) = ''Failed to fetch status'' \<and>
      error (senior_fetchStatus E s (Rejected m)) = m \<and>
      error (senior_fetchStatus E s (Response True (SyntaxError m))) = m \<and>
      error (foldl senior_apply s (fst (handleConfirm E (userId s) (Some np)
               (Response True b') (Response False b)))) = ''Failed to fetch status'' \<and>
      error (foldl senior_apply s (fst (handleConfirm E (userId s) (Some np)
               (Response True b') (Rejected m)))) = m \<and>
      error (foldl senior_apply s (fst (handleConfirm E (userId s) (Some np)
               (Response True b') (Response True (SyntaxError m))))) = m) \<and>
   (encodeURIComponent E (patientId c) = Inr enc' \<longrightarrow>
      error (caregiver_fetchData E c (Response False b'')) = ''Failed to load dashboard'' \<and>
      error (caregiver_fetchData E c (Rejected m)) = m \<and>
      error (caregiver_fetchData E c (Response True (SyntaxError m))) = m) \<and>
   (encodeURIComponent E (userId s) = Inl u \<longrightarrow>
      error (senior_fetchStatus E s r) = u \<and>
      error (foldl senior_apply s (fst (handleConfirm E (userId s) (Some np)
               (Response True b') rg))) = u) \<and>
   (encodeURIComponent E (patientId c) = Inl u' \<longrightarrow> error (caregiver_fetchData E c r') = u')"
proof -
  have thrown: "snd (fetchStatus E uid r) = None \<and> snd (handleConfirm E uid np_opt rp rg) = None \<and>
        snd (fetchData E pid r') = None"
    by (simp add: catch_finally_snd fetchStatus_def fetchData_def handleConfirm_def
        split: option.splits)
  have post: "error (foldl senior_apply s (fst (handleConfirm E uid (Some np) (Response False b') rg)))
       = ''Failed to confirm dose'' \<and>
     error (foldl senior_apply s (fst (handleConfirm E uid (Some np) (Rejected m :: unit fetch_result) rg)))
       = m"
    by (simp add: handleConfirm_def handleConfirm_try_def catch_finally_def senior_apply_def)
  have reload: "error (foldl senior_apply s (fst (handleConfirm E (userId s) (Some np)
               (Response True b') g))) = error (senior_fetchStatus E s g)" for g
    by (simp add: handleConfirm_def handleConfirm_try_def fetchStatus_def fetchStatus_try_def
        catch_finally_def senior_apply_def senior_fetchStatus_def today_url_def Let_def
        split: fetch_result.splits json_result.splits sum.splits)
  show ?thesis
    using thrown post
    by (simp add: reload senior_fetchStatus_error caregiver_fetchData_error split: sum.splits)
qed

theorem failures_caught_with_their_message_witness:
  "encodeURIComponent demo_env (userId demo_senior) = Inr ''demo-patient'' \<and>
   encodeURIComponent demo_env (patientId caregiver_init) = Inr ''demo-patient'' \<and>
   error (senior_fetchStatus demo_env demo_senior (Response False (Json None)))
     = ''Failed to fetch status'' \<and>
   error (foldl senior_apply demo_senior (fst (handleConfirm demo_env (userId demo_senior)
      (Some item_C) (Response True (Json ())) (Rejected ''Failed to fetch'')))) = ''Failed to fetch'' \<and>
   error (caregiver_fetchData demo_env caregiver_init (Rejected ''Failed to fetch''))
     = ''Failed to fetch'' \<and>
   encodeURIComponent demo_env (userId (demo_senior\<lparr>userId := lone_surrogate\<rparr>)) = Inl ''URI malformed'' \<and>
   error (senior_fetchStatus demo_env (demo_senior\<lparr>userId := lone_surrogate\<rparr>)
      (Response True (Json None))) = ''URI malformed'' \<and>
   encodeURIComponent demo_env (patientId (caregiver_init\<lparr>patientId := lone_surrogate\<rparr>))
     = Inl ''URI malformed'' \<and>
   error (caregiver_fetchData demo_env (caregiver_init\<lparr>patientId := lone_surrogate\<rparr>)
      (Response True (Json None))) = ''URI malformed''"
proof -
  have e1: "encodeURIComponent demo_env (userId demo_senior) = Inr ''demo-patient''"
    by (simp add: demo_env_def demo_senior_def senior_init_def lone_surrogate_def)
  have e2: "encodeURIComponent demo_env (patientId caregiver_init) = Inr ''demo-patient''"
    by (simp add: demo_env_def caregiver_init_def lone_surrogate_def)
  have t1: "encodeURIComponent demo_env (userId (demo_senior\<lparr>userId := lone_surrogate\<rparr>))
              = Inl ''URI malformed''"
    by (simp add: demo_env_def)
  have t2: "encodeURIComponent demo_env (patientId (caregiver_init\<lparr>patientId := lone_surrogate\<rparr>))
              = Inl ''URI malformed''"
    by (simp add: demo_env_def)
  note A = failures_caught_with_their_message [where E = demo_env and s = demo_senior
      and c = caregiver_init and enc = "''demo-patient''" and enc' = "''demo-patient''"
      and b = "Json None" and b' = "Json ()" and b'' = "Json None" and np = item_C
      and m = "''Failed to fetch''" and u = "[]" and u' = "[]"
      and uid = "[]" and pid = "[]" and np_opt = None and r = "Rejected []" and r' = "Rejected []"
      and rp = "Rejected [] :: unit fetch_result" and rg = "Rejected []"]
  note B = failures_caught_with_their_message [where E = demo_env
      and s = "demo_senior\<lparr>userId := lone_surrogate\<rparr>"
      and c = "caregiver_init\<lparr>patientId := lone_surrogate\<rparr>"
      and enc = "[]" and enc' = "[]"
      and b = "Json None" and b' = "Json ()" and b'' = "Json None" and np = item_C
      and m = "[]" and u = "''URI malformed''" and u' = "''URI malformed''"
      and uid = "[]" and pid = "[]" and np_opt = None
      and r = "Response True (Json None)" and r' = "Response True (Json None)"
      and rp = "Rejected [] :: unit fetch_result" and rg = "Rejected []"]
  have a1: "error (senior_fetchStatus demo_env demo_senior (Response False (Json None)))
     = ''Failed to fetch status''"
    and a2: "error (foldl senior_apply demo_senior (fst (handleConfirm demo_env (userId demo_senior)
      (Some item_C) (Response True (Json ())) (Rejected ''Failed to fetch'')))) = ''Failed to fetch''"
    and a3: "error (caregiver_fetchData demo_env caregiver_init (Rejected ''Failed to fetch''))
     = ''Failed to fetch''"
    using A e1 e2 by blast+
  have b1: "error (senior_fetchStatus demo_env (demo_senior\<lparr>userId := lone_surrogate\<rparr>)
      (Response True (Json None))) = ''URI malformed''"
    and b2: "error (caregiver_fetchData demo_env (caregiver_init\<lparr>patientId := lone_surrogate\<rparr>)
      (Response True (Json None))) = ''URI malformed''"
    using B t1 t2 by blast+
  show ?thesis
    using e1 e2 a1 a2 a3 t1 b1 t2 b2 by (intro conjI) assumption+
qed

text \<open>
  C8 (the claim as stated fails). With an empty history, the history panel renders an
  empty list: it has no empty-state text.
\<close>

theorem history_panel_empty_list:
  "history_panel empty_dashboard = []"
  by (simp add: history_panel_def empty_dashboard_def)

text \<open>
  C8 (amended). For every Dashboard Snapshot, the missed-doses panel and the
  inventory-alerts panel each render their empty-state text, and nothing else, whenever
  their collection is empty.
\<close>

theorem missed_and_alerts_empty_state:
  "(missed d = [] \<longrightarrow> missed_panel d = [Paragraph ''No missed doses in the last week.'']) \<and>
   (inventory_alerts d = [] \<longrightarrow> alerts_panel d = [Paragraph ''All inventories look good.''])"
  by (simp add: missed_panel_def alerts_panel_def)

theorem missed_and_alerts_empty_state_witness:
  "missed empty_dashboard = [] \<and> inventory_alerts empty_dashboard = [] \<and>
   missed_panel empty_dashboard = [Paragraph ''No missed doses in the last week.''] \<and>
   alerts_panel empty_dashboard = [Paragraph ''All inventories look good.'']"
proof -
  have h1: "missed empty_dashboard = []" and h2: "inventory_alerts empty_dashboard = []"
    by (simp_all add: empty_dashboard_def)
  note A = missed_and_alerts_empty_state [of empty_dashboard, THEN conjunct1, THEN mp, OF h1]
  note B = missed_and_alerts_empty_state [of empty_dashboard, THEN conjunct2, THEN mp, OF h2]
  show ?thesis using h1 h2 A B by (intro conjI) assumption+
qed

text \<open>
  C9. Fetched entities are not mutated in place. On a store whose next address is unused,
  the next-pending-dose derivation writes to no item object and leaves every array that
  existed before it, the item collection of the status among them, as it was (the array
  it sorts is the new one that \<^verbatim>\<open>filter\<close> made). A successful fetch (the request was
  built and answered by a 2xx response with a JSON body) replaces the whole snapshot by
  the fetched one, in either view, whatever the snapshot before was.
\<close>

theorem snapshots_never_mutated:
  assumes "fresh_unused h"
  shows "objs (fst (nextPending_store E h ref)) = objs h \<and>
         (\<forall>a refs. arrs h a = Some refs \<longrightarrow>
            arrs (fst (nextPending_store E h ref)) a = Some refs) \<and>
         (encodeURIComponent E (userId s) = Inr enc \<longrightarrow>
            senior_state.status (senior_fetchStatus E s (Response True (Json d))) = d) \<and>
         (encodeURIComponent E (patientId c) = Inr enc' \<longrightarrow>
            data (caregiver_fetchData E c (Response True (Json j))) = j)"
proof -
  have "\<And>a refs. arrs h a = Some refs \<Longrightarrow> a \<noteq> fresh h"
    using assms by (auto simp: fresh_unused_def)
  then have "\<forall>a refs. arrs h a = Some refs \<longrightarrow>
               arrs (fst (nextPending_store E h ref)) a = Some refs"
    by (simp add: nextPending_store_arrs)
  then show ?thesis
    by (simp add: nextPending_store_objs senior_fetchStatus_status caregiver_fetchData_data)
qed

theorem snapshots_never_mutated_witness:
  "fresh_unused demo_store \<and> arrs demo_store 3 = Some [0, 1, 2] \<and>
   snd (nextPending_store demo_env demo_store (Some 3)) = Some 2 \<and>
   objs (fst (nextPending_store demo_env demo_store (Some 3))) = objs demo_store \<and>
   arrs (fst (nextPending_store demo_env demo_store (Some 3))) 3 = Some [0, 1, 2] \<and>
   arrs (fst (nextPending_store demo_env demo_store (Some 3))) 4 = Some [2, 1] \<and>
   encodeURIComponent demo_env (userId demo_senior) = Inr ''demo-patient'' \<and>
   senior_state.status (senior_fetchStatus demo_env demo_senior
      (Response True (Json (Some all_taken_status)))) = Some all_taken_status \<and>
   encodeURIComponent demo_env (patientId caregiver_init) = Inr ''demo-patient'' \<and>
   data (caregiver_fetchData demo_env caregiver_init
      (Response True (Json (Some empty_dashboard)))) = Some empty_dashboard"
proof -
  have h: "fresh_unused demo_store"
    by (simp add: fresh_unused_def demo_store_def)
  have a: "arrs demo_store 3 = Some [0, 1, 2]"
    by (simp add: demo_store_def)
  have e1: "encodeURIComponent demo_env (userId demo_senior) = Inr ''demo-patient''"
    by (simp add: demo_env_def demo_senior_def senior_init_def lone_surrogate_def)
  have e2: "encodeURIComponent demo_env (patientId caregiver_init) = Inr ''demo-patient''"
    by (simp add: demo_env_def caregiver_init_def lone_surrogate_def)
  note T = snapshots_never_mutated [OF h, where E = demo_env and ref = "Some 3"
      and s = demo_senior and d = "Some all_taken_status" and enc = "''demo-patient''"
      and c = caregiver_init and j = "Some empty_dashboard" and enc' = "''demo-patient''"]
  have run: "snd (nextPending_store demo_env demo_store (Some 3)) = Some 2 \<and>
             arrs (fst (nextPending_store demo_env demo_store (Some 3))) 4 = Some [2, 1]"
    by (simp add: nextPending_store_def demo_store_def status_of_ref_def compare_refs_def
        item_A_def item_B_def item_C_def index0_def cmp_le_def compareFn_def demo_env_def)
  show ?thesis using h a e1 e2 T run by blast
qed

text \<open>
  C10. Whenever the status is absent (\<^verbatim>\<open>null\<close>, as before the first successful fetch or
  after a 2xx response whose body is \<^verbatim>\<open>null\<close>) or its \<^verbatim>\<open>items\<close> field is missing or
  null, the derivation returns none, the Confirm button is disabled, and Confirm returns
  with no effect and the state unchanged.
\<close>

theorem nextPending_absent_items:
  assumes "senior_state.status s = None \<or>
           (\<exists>d. senior_state.status s = Some d \<and> items d = None)"
  shows "nextPending E (senior_state.status s) = None \<and>
         confirm_disabled E s \<and>
         confirm_run E s rp rg = ([], None) \<and>
         senior_handleConfirm E s rp rg = s"
  using assms
  by (auto simp add: nextPending_def confirm_disabled_def confirm_run_def handleConfirm_def
      senior_handleConfirm_def)

theorem nextPending_absent_items_witness:
  "senior_state.status senior_init = None \<and>
   nextPending demo_env (senior_state.status senior_init) = None \<and>
   confirm_disabled demo_env senior_init \<and>
   senior_handleConfirm demo_env senior_init (Response True (Json ())) (Rejected ''Failed to fetch'')
     = senior_init \<and>
   senior_state.status (senior_init\<lparr>senior_state.status := Some no_items_status\<rparr>)
     = Some no_items_status \<and> items no_items_status = None \<and>
   nextPending demo_env (senior_state.status (senior_init\<lparr>senior_state.status := Some no_items_status\<rparr>))
     = None \<and>
   confirm_disabled demo_env (senior_init\<lparr>senior_state.status := Some no_items_status\<rparr>)"
proof -
  have h1: "senior_state.status senior_init = None \<or>
           (\<exists>d. senior_state.status senior_init = Some d \<and> items d = None)"
    by (simp add: senior_init_def)
  have i: "items no_items_status = None"
    by (simp add: no_items_status_def)
  then have h2: "senior_state.status (senior_init\<lparr>senior_state.status := Some no_items_status\<rparr>) = None \<or>
           (\<exists>d. senior_state.status (senior_init\<lparr>senior_state.status := Some no_items_status\<rparr>) = Some d
                \<and> items d = None)"
    by simp
  note A = nextPending_absent_items [OF h1, of demo_env "Response True (Json ())" "Rejected ''Failed to fetch''"]
  note B = nextPending_absent_items [OF h2, of demo_env "Response True (Json ())" "Rejected ''Failed to fetch''"]
  show ?thesis using A B i by (simp add: senior_init_def)
qed

end
